theory Spec2Isabelle
  imports Complex_Main "HOL-Library.Word" "HOL-Library.Sublist" "HOL-Library.List_Lexorder"
    "HOL-Library.Char_ord" "HOL-Library.Product_Lexorder"
begin

section \<open>Tables\<close>

text \<open>
  A pandas DataFrame is modelled row by row: the column names in order, and one list of
  cells per row, aligned with the names. A cell is a string, an integer, a float or the
  missing value. An integer is a cell of an int64 column: a 64-bit word, read as a signed
  number, so that arithmetic on it wraps as it does in pandas and numpy. A float is a
  cell of a float64 column; here it is an exact rational, so rounding is not modelled.
  Label columns (campaign, promo type, category, product, city) hold strings, measure
  columns (revenue, quantities, margin) hold numbers of one kind; a string in a measure
  column is outside the model and is read like a missing value by the numeric reductions
  below.
\<close>

datatype cell = Str string | I64 "64 word" | Num rat | NaN

record frame =
  columns :: "string list"
  rows :: "cell list list"

text \<open>The exceptions. \<open>KeyError\<close> and \<open>ValueError\<close> are the Python exceptions the
  source can raise. \<open>MissingColumnError\<close> and \<open>ConfigurationError\<close> are the classes the
  specification names; no source file defines or raises them.\<close>

datatype exn =
    KeyError string
  | ValueError string
  | MissingColumnError "string list"
  | ConfigurationError string

text \<open>Raising: the first exception ends the computation.\<close>

definition andthen :: "exn + 'a \<Rightarrow> ('a \<Rightarrow> exn + 'b) \<Rightarrow> exn + 'b" where
  "andthen m f = (case m of Inl e \<Rightarrow> Inl e | Inr x \<Rightarrow> f x)"

text \<open>\<open>pd.DataFrame()\<close> and \<open>df.empty\<close> (true when either axis has length zero).\<close>

definition DataFrame :: frame where
  "DataFrame = \<lparr>columns = [], rows = []\<rparr>"

definition df_empty :: "frame \<Rightarrow> bool" where
  "df_empty df \<longleftrightarrow> columns df = [] \<or> rows df = []"

text \<open>The position of the first column called \<open>c\<close>, and the cell of a row there.\<close>

fun position :: "string list \<Rightarrow> string \<Rightarrow> nat" where
  "position [] c = 0"
| "position (x # xs) c = (if x = c then 0 else Suc (position xs c))"

definition cell_at :: "cell list \<Rightarrow> nat \<Rightarrow> cell" where
  "cell_at r i = (if i < length r then r ! i else NaN)"

definition cell_of :: "frame \<Rightarrow> string \<Rightarrow> cell list \<Rightarrow> cell" where
  "cell_of df c r = cell_at r (position (columns df) c)"

text \<open>\<open>df[c]\<close> where the name \<open>c\<close> heads one column: the column as a series; a KeyError
  naming \<open>c\<close> when there is no such column. \<open>series\<close> is the same read where the source
  has already tested \<open>c in df.columns\<close>. Where a name heads several columns pandas
  gives a frame instead of a series; the filter engine below is modelled for that case
  too, the views are not, and the statements about them that need it are for tables whose
  column names are distinct.\<close>

definition series :: "frame \<Rightarrow> string \<Rightarrow> cell list" where
  "series df c = map (cell_of df c) (rows df)"

definition getitem :: "frame \<Rightarrow> string \<Rightarrow> exn + cell list" where
  "getitem df c = (if c \<in> set (columns df) then Inr (series df c) else Inl (KeyError c))"

text \<open>\<open>s.isin(values)\<close>, \<open>s == v\<close> and \<open>df[mask]\<close> with a boolean series as mask.\<close>

definition isin :: "cell list \<Rightarrow> cell list \<Rightarrow> bool list" where
  "isin s vals = map (\<lambda>v. v \<in> set vals) s"

definition series_eq :: "cell list \<Rightarrow> cell \<Rightarrow> bool list" where
  "series_eq s v = map (\<lambda>x. x = v) s"

definition bool_index :: "frame \<Rightarrow> bool list \<Rightarrow> frame" where
  "bool_index df msk = df\<lparr>rows := map fst (filter snd (zip (rows df) msk))\<rparr>"

text \<open>
  \<open>df[c]\<close> in general: for each row, the cells under every column called \<open>c\<close>, from
  left to right. One cell per row stands for a series (shape (n,)), k > 1 cells per row
  for a frame of k columns (shape (n, k)). \<open>isin\<close> keeps the shape.
\<close>

fun positions_from :: "nat \<Rightarrow> string list \<Rightarrow> string \<Rightarrow> nat list" where
  "positions_from n [] c = []"
| "positions_from n (x # xs) c =
     (if x = c then n # positions_from (Suc n) xs c else positions_from (Suc n) xs c)"

definition columns_named :: "frame \<Rightarrow> string \<Rightarrow> cell list list" where
  "columns_named df c = map (\<lambda>r. map (cell_at r) (positions_from 0 (columns df) c)) (rows df)"

definition isin_cells :: "cell list list \<Rightarrow> cell list \<Rightarrow> bool list list" where
  "isin_cells m vals = map (map (\<lambda>v. v \<in> set vals)) m"

text \<open>
  \<open>np.logical_and.reduce(filters)\<close> over a non-empty list of masks. numpy first makes
  one array of the list, which needs masks of one shape: a series among frames, or frames
  of different widths, raise ValueError. Masks of one shape are combined cell by cell,
  from the left.
\<close>

definition logical_and :: "bool list list \<Rightarrow> bool list list \<Rightarrow> bool list list" where
  "logical_and a b = map2 (map2 (\<and>)) a b"

definition same_shape :: "bool list list \<Rightarrow> bool list list \<Rightarrow> bool" where
  "same_shape a b \<longleftrightarrow> map length a = map length b"

fun logical_and_reduce :: "bool list list list \<Rightarrow> exn + bool list list" where
  "logical_and_reduce [] = Inr []"
| "logical_and_reduce (m # ms) =
     (if list_all (same_shape m) ms then Inr (foldl logical_and m ms)
      else Inl (ValueError ''setting an array element with a sequence''))"

text \<open>
  \<open>df[mask]\<close> with the array that \<open>reduce\<close> returns: the frame itself when every cell
  of the mask is true (the shortcut of pandas 2); otherwise the rows at
  \<open>mask.nonzero()[0]\<close>, that is each row once for every true cell of its mask row. For
  the mask of a series this keeps the rows whose cell is true, with or without the
  shortcut.
\<close>

definition mask_index :: "frame \<Rightarrow> bool list list \<Rightarrow> frame" where
  "mask_index df m =
     (if list_all (list_all (\<lambda>b. b)) m then df
      else df\<lparr>rows :=
             concat (map (\<lambda>rb. replicate (length (filter (\<lambda>b. b) (snd rb))) (fst rb))
                       (zip (rows df) m))\<rparr>)"

section \<open>Session state\<close>

text \<open>
  \<open>st.session_state\<close>, as far as the data layer reads it: the multiselect selections by
  key (a key can be absent), the two date bounds, the focus city and the KPI focus.
\<close>

record state =
  selections :: "string \<rightharpoonup> cell list"
  date_start :: "int option"
  date_end :: "int option"
  selected_city :: "string option"
  kpi_focus :: "string option"

text \<open>\<open>state.get(key, [])\<close>.\<close>

definition get_selection :: "state \<Rightarrow> string \<Rightarrow> cell list" where
  "get_selection s key = (case selections s key of None \<Rightarrow> [] | Some v \<Rightarrow> v)"

section \<open>The filter engine (scripts/data_loader.py, apply_global_filters)\<close>

definition filter_map :: "(string \<times> string) list" where
  "filter_map =
    [(''campaign_id'', ''campaigns''),
     (''category'', ''categories''),
     (''product_code'', ''products''),
     (''promo_type'', ''promo_types''),
     (''city'', ''cities'')]"

text \<open>The loop over \<open>filter_map.items()\<close>: one mask per column name that the table has
  and whose selection is non-empty.\<close>

definition active :: "frame \<Rightarrow> state \<Rightarrow> (string \<times> string) \<Rightarrow> bool" where
  "active df s ck \<longleftrightarrow> fst ck \<in> set (columns df) \<and> get_selection s (snd ck) \<noteq> []"

definition filters :: "frame \<Rightarrow> state \<Rightarrow> bool list list list" where
  "filters df s =
     map (\<lambda>ck. isin_cells (columns_named df (fst ck)) (get_selection s (snd ck)))
       (filter (active df s) filter_map)"

text \<open>The function returns after the categorical filters; the date-range code that
  follows the \<open>return\<close> in the source is never run, so \<open>date_start\<close> and
  \<open>date_end\<close> are not read. The argument can be \<open>None\<close>, which is returned as it is.\<close>

definition apply_global_filters :: "frame option \<Rightarrow> state \<Rightarrow> exn + frame option" where
  "apply_global_filters df s =
     (case df of
        None \<Rightarrow> Inr None
      | Some d \<Rightarrow>
          if df_empty d then Inr (Some d)
          else if filters d s \<noteq> []
          then andthen (logical_and_reduce (filters d s)) (\<lambda>m. Inr (Some (mask_index d m)))
          else Inr (Some d))"

text \<open>Filtering the result of a filtering again, and the rows of a result (none when the
  call raised or returned \<open>None\<close>), for comparing results row by row.\<close>

definition apply_twice :: "frame option \<Rightarrow> state \<Rightarrow> exn + frame option" where
  "apply_twice df s = andthen (apply_global_filters df s) (\<lambda>r. apply_global_filters r s)"

definition rows_of :: "exn + frame option \<Rightarrow> cell list list" where
  "rows_of r = (case r of Inr (Some d) \<Rightarrow> rows d | _ \<Rightarrow> [])"

definition returns :: "exn + 'a \<Rightarrow> bool" where
  "returns r = (case r of Inr x \<Rightarrow> True | Inl e \<Rightarrow> False)"

text \<open>A table whose column names are distinct (\<open>None\<close> has no column).\<close>

definition distinct_columns :: "frame option \<Rightarrow> bool" where
  "distinct_columns df = (case df of None \<Rightarrow> True | Some d \<Rightarrow> distinct (columns d))"

text \<open>A row passes when it passes every active filter.\<close>

definition passes :: "frame \<Rightarrow> state \<Rightarrow> cell list \<Rightarrow> bool" where
  "passes df s r \<longleftrightarrow>
     (\<forall>ck \<in> set filter_map. active df s ck \<longrightarrow> cell_of df (fst ck) r \<in> set (get_selection s (snd ck)))"

text \<open>Selection state \<open>s2\<close> is at least as restrictive as \<open>s1\<close> on a key: where \<open>s1\<close>
  restricts (a non-empty selection), \<open>s2\<close> restricts too, to values \<open>s1\<close> accepts. The
  empty selection accepts every value.\<close>

definition restricts :: "state \<Rightarrow> state \<Rightarrow> string \<Rightarrow> bool" where
  "restricts s2 s1 key \<longleftrightarrow>
     get_selection s1 key = [] \<or>
     (get_selection s2 key \<noteq> [] \<and> set (get_selection s2 key) \<subseteq> set (get_selection s1 key))"

definition more_restrictive :: "state \<Rightarrow> state \<Rightarrow> bool" where
  "more_restrictive s2 s1 \<longleftrightarrow> (\<forall>ck \<in> set filter_map. restricts s2 s1 (snd ck))"

definition same_selections :: "state \<Rightarrow> state \<Rightarrow> bool" where
  "same_selections s1 s2 \<longleftrightarrow>
     (\<forall>ck \<in> set filter_map. get_selection s1 (snd ck) = get_selection s2 (snd ck))"

section \<open>Numeric reductions and numpy scalars\<close>

text \<open>The value of a numeric cell, and the values of the numeric cells of a column.\<close>

definition val :: "cell \<Rightarrow> rat" where
  "val c = (case c of I64 w \<Rightarrow> of_int (sint w) | Num q \<Rightarrow> q | _ \<Rightarrow> 0)"

definition finite_values :: "cell list \<Rightarrow> rat list" where
  "finite_values s =
     concat (map (\<lambda>c. case c of I64 w \<Rightarrow> [of_int (sint w)] | Num q \<Rightarrow> [q] | _ \<Rightarrow> []) s)"

definition int_values :: "cell list \<Rightarrow> 64 word list" where
  "int_values s = concat (map (\<lambda>c. case c of I64 w \<Rightarrow> [w] | _ \<Rightarrow> []) s)"

definition is_int_column :: "cell list \<Rightarrow> bool" where
  "is_int_column s = list_all (\<lambda>c. case c of I64 w \<Rightarrow> True | _ \<Rightarrow> False) s"

text \<open>
  \<open>Series.sum()\<close>, also per group: the sum of an int64 column is an int64 and wraps
  silently; any other column is summed as floats, skipping missing values, and the sum of
  nothing is 0. \<open>Series.mean()\<close> and \<open>Series.max()\<close> skip missing values; the mean is
  taken in floats, and the mean and the maximum of nothing are NaN.
\<close>

definition sum_cell :: "cell list \<Rightarrow> cell" where
  "sum_cell s =
     (if is_int_column s then I64 (sum_list (int_values s)) else Num (sum_list (finite_values s)))"

definition series_sum :: "cell list \<Rightarrow> rat" where
  "series_sum s = val (sum_cell s)"

definition series_mean :: "cell list \<Rightarrow> cell" where
  "series_mean s =
     (if finite_values s = [] then NaN
      else Num (sum_list (finite_values s) / of_nat (length (finite_values s))))"

definition series_max :: "cell list \<Rightarrow> cell" where
  "series_max s = (case finite_values s of [] \<Rightarrow> NaN | q # qs \<Rightarrow> Num (fold max qs q))"



text \<open>
  The sums are numpy scalars (the measure columns have a numeric type; the sums of a
  column of type object, as a file with a header line only gives, are Python numbers and
  are outside the model). The difference of two int64 scalars is an int64 and wraps; any
  other difference is a float. Dividing a numpy scalar by zero raises nothing: it gives
  an infinity, or NaN for 0/0 (with a RuntimeWarning).
\<close>

definition np_subtract :: "cell \<Rightarrow> cell \<Rightarrow> cell" where
  "np_subtract a b =
     (case (a, b) of (I64 x, I64 y) \<Rightarrow> I64 (x - y) | _ \<Rightarrow> Num (val a - val b))"

datatype npfloat = Finite rat | PosInf | NegInf | NotANumber

definition np_divide :: "rat \<Rightarrow> rat \<Rightarrow> npfloat" where
  "np_divide a b =
     (if b \<noteq> 0 then Finite (a / b)
      else if 0 < a then PosInf
      else if a < 0 then NegInf
      else NotANumber)"

definition np_times :: "npfloat \<Rightarrow> rat \<Rightarrow> npfloat" where
  "np_times x c =
     (case x of
        Finite q \<Rightarrow> Finite (q * c)
      | PosInf \<Rightarrow> (if 0 < c then PosInf else if c < 0 then NegInf else NotANumber)
      | NegInf \<Rightarrow> (if 0 < c then NegInf else if c < 0 then PosInf else NotANumber)
      | NotANumber \<Rightarrow> NotANumber)"

section \<open>The KPI summary (dashboard.py)\<close>

record kpi_pair =
  before_value :: rat
  after_value :: rat
  incremental_percent :: npfloat

text \<open>\<open>st.session_state.get("kpi_focus", "Revenue")\<close>.\<close>

definition get_kpi_focus :: "state \<Rightarrow> string" where
  "get_kpi_focus s = (case kpi_focus s of None \<Rightarrow> ''Revenue'' | Some k \<Rightarrow> k)"

text \<open>A focus city is in force when it is set, not the empty string, not 'All', and the
  table has a city column.\<close>

definition focus_city_filter :: "frame \<Rightarrow> state \<Rightarrow> frame" where
  "focus_city_filter df s =
     (case selected_city s of
        None \<Rightarrow> df
      | Some c \<Rightarrow>
          if c \<noteq> [] \<and> c \<noteq> ''All'' \<and> ''city'' \<in> set (columns df)
          then bool_index df (series_eq (series df ''city'') (Str c))
          else df)"

text \<open>The scope of the KPI summary: the focus city, then the selected categories, whose
  column is read without a test.\<close>

definition kpi_scope :: "frame \<Rightarrow> state \<Rightarrow> exn + frame" where
  "kpi_scope df s =
     (let scope_df = focus_city_filter df s;
          selected_categories = get_selection s ''categories''
      in if selected_categories \<noteq> []
         then andthen (getitem scope_df ''category'')
                (\<lambda>col. Inr (bool_index scope_df (isin col selected_categories)))
         else Inr scope_df)"

text \<open>The percentage of the metric cards, with its test of the denominator, and the one
  computed again below the cards, without.\<close>

definition guarded_percent :: "cell \<Rightarrow> cell \<Rightarrow> npfloat" where
  "guarded_percent total_before total_after =
     (if val total_before \<noteq> 0
      then np_times (np_divide (val (np_subtract total_after total_before)) (val total_before)) 100
      else Finite 0)"

definition unguarded_percent :: "cell \<Rightarrow> cell \<Rightarrow> npfloat" where
  "unguarded_percent total_before total_after =
     np_times (np_divide (val (np_subtract total_after total_before)) (val total_before)) 100"

definition kpi_of ::
  "(cell \<Rightarrow> cell \<Rightarrow> npfloat) \<Rightarrow> frame \<Rightarrow> string \<Rightarrow> string \<Rightarrow> exn + kpi_pair" where
  "kpi_of percent scope_df before_col after_col =
     andthen (getitem scope_df before_col) (\<lambda>b.
     andthen (getitem scope_df after_col) (\<lambda>a.
       Inr \<lparr>before_value = series_sum b, after_value = series_sum a,
            incremental_percent = percent (sum_cell b) (sum_cell a)\<rparr>))"

text \<open>The metric cards: the pair of the focused metric family, none for any other focus.
  Both columns of the family are read before the first card is shown.\<close>

definition kpi_cards :: "frame \<Rightarrow> string \<Rightarrow> exn + kpi_pair option" where
  "kpi_cards scope_df focus =
     (if focus = ''Revenue''
      then andthen (kpi_of guarded_percent scope_df ''revenue_before_promo'' ''revenue_after_promo'')
             (\<lambda>p. Inr (Some p))
      else if focus = ''Units''
      then andthen
             (kpi_of guarded_percent scope_df ''quantity_sold (before_promo)''
                ''quantity_sold (after_promo)'')
             (\<lambda>p. Inr (Some p))
      else Inr None)"

text \<open>Below the cards both families are computed again, whatever the focus, and these
  values replace \<open>ir_percent\<close> and \<open>isu_percent\<close>; the KPI chart plots the one of the
  focus (the units one for a focus that is neither). After them the script filters
  a copy of the unfiltered table (\<open>df_filtered\<close>) that nothing reads afterwards; that
  step, which comes after every read of the KPI columns, is left out.\<close>

definition kpi_recomputed :: "frame \<Rightarrow> exn + kpi_pair \<times> kpi_pair" where
  "kpi_recomputed scope_df =
     andthen (kpi_of unguarded_percent scope_df ''revenue_before_promo'' ''revenue_after_promo'')
       (\<lambda>rev.
     andthen
       (kpi_of unguarded_percent scope_df ''quantity_sold (before_promo)''
          ''quantity_sold (after_promo)'')
       (\<lambda>units. Inr (rev, units)))"

definition kpi_chart :: "string \<Rightarrow> kpi_pair \<times> kpi_pair \<Rightarrow> kpi_pair" where
  "kpi_chart focus p = (if focus = ''Revenue'' then fst p else snd p)"

text \<open>
  What the summary leaves on the page. When it runs through: the cards and the values of
  the chart. When it raises: the exception, and the cards that were already shown, for
  the script is run top to bottom and the cards are on the page when the computation
  below them raises.
\<close>

record kpi_view =
  cards :: "kpi_pair option"
  chart :: kpi_pair

record kpi_failure =
  shown :: "kpi_pair option"
  raised :: exn

definition dashboard_kpi :: "frame \<Rightarrow> state \<Rightarrow> kpi_failure + kpi_view" where
  "dashboard_kpi df s =
     (case kpi_scope df s of
        Inl e \<Rightarrow> Inl \<lparr>shown = None, raised = e\<rparr>
      | Inr scope_df \<Rightarrow>
          (case kpi_cards scope_df (get_kpi_focus s) of
             Inl e \<Rightarrow> Inl \<lparr>shown = None, raised = e\<rparr>
           | Inr c \<Rightarrow>
               (case kpi_recomputed scope_df of
                  Inl e \<Rightarrow> Inl \<lparr>shown = c, raised = e\<rparr>
                | Inr p \<Rightarrow> Inr \<lparr>cards = c, chart = kpi_chart (get_kpi_focus s) p\<rparr>)))"

definition kpi_columns :: "string list" where
  "kpi_columns =
     [''revenue_before_promo'', ''revenue_after_promo'',
      ''quantity_sold (before_promo)'', ''quantity_sold (after_promo)'']"




section \<open>Grouping\<close>

text \<open>
  \<open>df.groupby(cols)\<close> with the defaults of pandas: a row with a missing value in a key
  column belongs to no group, and the groups come out sorted by key. Keys are compared
  through \<open>rank\<close>: strings in code-point order, numbers by value.
\<close>

definition rank :: "cell \<Rightarrow> nat \<times> rat \<times> string" where
  "rank c =
     (case c of
        I64 w \<Rightarrow> (0, of_int (sint w), [])
      | Num q \<Rightarrow> (0, q, [])
      | Str t \<Rightarrow> (1, 0, t)
      | NaN \<Rightarrow> (2, 0, []))"

definition group_key :: "frame \<Rightarrow> string list \<Rightarrow> cell list \<Rightarrow> cell list" where
  "group_key df cols r = map (\<lambda>c. cell_of df c r) cols"

definition grouped_rows :: "frame \<Rightarrow> string list \<Rightarrow> cell list list" where
  "grouped_rows df cols = filter (\<lambda>r. NaN \<notin> set (group_key df cols r)) (rows df)"

definition group_keys :: "frame \<Rightarrow> string list \<Rightarrow> cell list list" where
  "group_keys df cols = sort_key (map rank) (remdups (map (group_key df cols) (grouped_rows df cols)))"

definition group_rows :: "frame \<Rightarrow> string list \<Rightarrow> cell list \<Rightarrow> cell list list" where
  "group_rows df cols k = filter (\<lambda>r. group_key df cols r = k) (grouped_rows df cols)"

text \<open>\<open>df.groupby(cols)[v].sum()\<close>: the keys with the sum of column \<open>v\<close> over each group
  (its value; the sum of an int64 column wraps).\<close>

definition groupby_sum :: "frame \<Rightarrow> string list \<Rightarrow> string \<Rightarrow> (cell list \<times> rat) list" where
  "groupby_sum df cols v =
     map (\<lambda>k. (k, series_sum (map (cell_of df v) (group_rows df cols k)))) (group_keys df cols)"

text \<open>\<open>Series.unique()\<close>: the distinct values in order of first appearance, the missing
  value included.\<close>

definition unique :: "cell list \<Rightarrow> cell list" where
  "unique s = rev (remdups (rev s))"

section \<open>The flow graph (pages/1_Advanced_Analytics.py, Sankey)\<close>

text \<open>What a view does: it raises, or it warns about the columns it misses and draws
  nothing, or it draws from the data it computed.\<close>

datatype 'a outcome = Raised exn | Warned "string set" | Rendered 'a

record flow_graph =
  labels :: "cell list"
  sources :: "nat option list"
  targets :: "nat option list"
  link_values :: "rat list"

text \<open>The edges of a graph: source index, target index, weight.\<close>

definition edges :: "flow_graph \<Rightarrow> (nat option \<times> nat option \<times> rat) list" where
  "edges g = zip (sources g) (zip (targets g) (link_values g))"

text \<open>\<open>{label: i for i, label in enumerate(labels)}\<close>: a later entry of the same label
  replaces the earlier one. \<open>Series.map\<close> with this dictionary gives the missing value
  (\<open>None\<close>) for a label that is not a key.\<close>

definition label_indices :: "cell list \<Rightarrow> (cell \<rightharpoonup> nat)" where
  "label_indices ls = fold (\<lambda>il m. m(snd il \<mapsto> fst il)) (enumerate 0 ls) Map.empty"

definition sankey_required :: "string list" where
  "sankey_required =
     [''campaign_id'', ''promo_type'', ''category'', ''revenue_after_promo'',
      ''total_quantity_sold'']"

definition sankey_value_col :: "string \<Rightarrow> string" where
  "sankey_value_col metric =
     (if metric = ''Revenue'' then ''revenue_after_promo'' else ''total_quantity_sold'')"

text \<open>\<open>df[df[value_col] >= min_value]\<close>: a missing value is not above any threshold.\<close>

definition at_least :: "int \<Rightarrow> cell \<Rightarrow> bool" where
  "at_least t c =
     (case c of
        I64 w \<Rightarrow> t \<le> sint w
      | Num q \<Rightarrow> of_int t \<le> q
      | _ \<Rightarrow> False)"

definition sankey_scope :: "frame \<Rightarrow> string \<Rightarrow> int \<Rightarrow> frame" where
  "sankey_scope df value_col min_value =
     bool_index df (map (at_least min_value) (series df value_col))"

text \<open>The node list and the links built from the scoped rows.\<close>

definition sankey_labels :: "frame \<Rightarrow> cell list" where
  "sankey_labels df =
     unique (series df ''campaign_id'') @ unique (series df ''promo_type'')
       @ unique (series df ''category'')"

definition sankey_graph :: "frame \<Rightarrow> string \<Rightarrow> flow_graph" where
  "sankey_graph df value_col =
     (let ls = sankey_labels df;
          ix = label_indices ls;
          df_links1 = groupby_sum df [''campaign_id'', ''promo_type''] value_col;
          df_links2 = groupby_sum df [''promo_type'', ''category''] value_col
      in \<lparr>labels = ls,
          sources = map (\<lambda>kv. ix (cell_at (fst kv) 0)) df_links1
                    @ map (\<lambda>kv. ix (cell_at (fst kv) 0)) df_links2,
          targets = map (\<lambda>kv. ix (cell_at (fst kv) 1)) df_links1
                    @ map (\<lambda>kv. ix (cell_at (fst kv) 1)) df_links2,
          link_values = map snd df_links1 @ map snd df_links2\<rparr>)"

text \<open>
  The view. The upper bound of the threshold slider is \<open>int(df[value_col].max())\<close>,
  computed before anything else: the maximum of a column with no value is NaN, and
  \<open>int\<close> of NaN raises ValueError. The slider itself belongs to the presentation layer;
  the threshold the user picks on it is the argument \<open>min_value\<close>.
\<close>

definition sankey :: "frame \<Rightarrow> string \<Rightarrow> int \<Rightarrow> flow_graph outcome" where
  "sankey df metric min_value =
     (if \<not> set sankey_required \<subseteq> set (columns df)
      then Warned (set sankey_required - set (columns df))
      else case series_max (series df (sankey_value_col metric)) of
             Num mx \<Rightarrow>
               Rendered (sankey_graph (sankey_scope df (sankey_value_col metric) min_value)
                 (sankey_value_col metric))
           | _ \<Rightarrow> Raised (ValueError ''cannot convert float NaN to integer''))"

text \<open>The node list in the specification's words: the ordered union of the distinct
  values of level 1, then level 2, then level 3, one entry per value.\<close>

definition ordered_union :: "frame \<Rightarrow> cell list" where
  "ordered_union df =
     unique (series df ''campaign_id'' @ series df ''promo_type'' @ series df ''category'')"

section \<open>The rollup (pages/1_Advanced_Analytics.py, Sunburst)\<close>




















section \<open>Before and after per campaign (pages/1_Advanced_Analytics.py, facets)\<close>





section \<open>The dataset loader (scripts/data_loader.py, load_csv)\<close>

definition CSV_ALIASES :: "(string \<times> string) list" where
  "CSV_ALIASES =
    [(''campaign_data'', ''dim_campaigns.csv''),
     (''product_data'', ''dim_products.csv''),
     (''stores_data'', ''dim_stores.csv''),
     (''event_data'', ''fact_events.csv''),
     (''clean_revenue'', ''clean_revenue.csv''),
     (''city_sales'', ''city_sales.csv''),
     (''clean_all'', ''clean_all.csv'')]"

definition rename_map :: "(string \<times> string) list" where
  "rename_map =
    [(''quantity_sold(before_promo)'', ''quantity_sold (before_promo)''),
     (''quantity_sold(after_promo)'', ''quantity_sold (after_promo)''),
     (''Incremental Revenue'', ''incremental_revenue''),
     (''IR%'', ''ir%''),
     (''ISU%'', ''isu%''),
     (''incremental_margin %'', ''incremental_margin%'')]"

text \<open>What is found at a path: nothing, a file that \<open>pd.read_csv\<close> fails on (with the
  text of the exception), or a table. What the loader tells the user on the way.\<close>

datatype entry = Absent | Unparsable string | Parsed frame

datatype notice = Warning string | Error string

text \<open>\<open>os.path.join\<close> of the data directory and a relative file name.\<close>

definition path_join :: "string \<Rightarrow> string \<Rightarrow> string" where
  "path_join dir name = (if dir = [] \<or> last dir = CHR ''/'' then dir @ name else dir @ ''/'' @ name)"

text \<open>\<open>str.strip()\<close> on ASCII: tab, line feed, vertical tab, form feed, carriage return,
  the four separators and the space are removed at both ends.\<close>

definition is_space :: "char \<Rightarrow> bool" where
  "is_space c \<longleftrightarrow> (9 \<le> (of_char c :: nat) \<and> (of_char c :: nat) \<le> 13)
     \<or> (28 \<le> (of_char c :: nat) \<and> (of_char c :: nat) \<le> 32)"

definition strip :: "string \<Rightarrow> string" where
  "strip t = rev (dropWhile is_space (rev (dropWhile is_space t)))"

text \<open>\<open>df[col] = f(df[col])\<close> on the first column of that name.\<close>

definition assign_col :: "frame \<Rightarrow> string \<Rightarrow> (cell \<Rightarrow> cell) \<Rightarrow> frame" where
  "assign_col df c f =
     df\<lparr>rows := map (\<lambda>r. if position (columns df) c < length r
                           then r[position (columns df) c := f (r ! position (columns df) c)]
                           else r) (rows df)\<rparr>"

definition parse_dates :: "(cell \<Rightarrow> cell) \<Rightarrow> frame \<Rightarrow> frame" where
  "parse_dates to_datetime df =
     fold (\<lambda>c d. if c \<in> set (columns d) then assign_col d c to_datetime else d)
       [''start_date'', ''end_date''] df"

definition rename_columns :: "frame \<Rightarrow> frame" where
  "rename_columns df =
     fold (\<lambda>kv d. if fst kv \<in> set (columns d) \<and> snd kv \<notin> set (columns d)
                   then d\<lparr>columns := map (\<lambda>c. if c = fst kv then snd kv else c) (columns d)\<rparr>
                   else d)
       rename_map df"

text \<open>
  The loader, given the data directory, what the file system holds at each path, and
  \<open>pd.to_datetime(errors="coerce")\<close> on a cell. An unknown alias raises
  \<open>KeyError("Unknown dataset alias: ...")\<close>; every other path returns a table and the
  notices shown.
\<close>

definition load_csv ::
  "string \<Rightarrow> (string \<Rightarrow> entry) \<Rightarrow> (cell \<Rightarrow> cell) \<Rightarrow> string \<Rightarrow> exn + notice list \<times> frame" where
  "load_csv data_dir fs to_datetime alias =
     (case map_of CSV_ALIASES alias of
        None \<Rightarrow> Inl (KeyError (''Unknown dataset alias: '' @ alias))
      | Some filename \<Rightarrow>
          (case fs (path_join data_dir filename) of
             Absent \<Rightarrow>
               Inr ([Warning (''Missing data file: '' @ filename @ '' under '' @ data_dir)],
                    DataFrame)
           | Unparsable exc \<Rightarrow>
               Inr ([Error (''Failed reading '' @ filename @ '': '' @ exc)], DataFrame)
           | Parsed df \<Rightarrow>
               Inr ([], rename_columns
                          ((parse_dates to_datetime df)
                             \<lparr>columns := map strip (columns (parse_dates to_datetime df))\<rparr>))))"

text \<open>Whether a result is the raising of one of the exception classes the specification
  names.\<close>

definition raises_ConfigurationError :: "exn + 'a \<Rightarrow> bool" where
  "raises_ConfigurationError r =
     (case r of Inl (ConfigurationError m) \<Rightarrow> True | _ \<Rightarrow> False)"




text \<open>A file system with no entry at all.\<close>

definition no_files :: "string \<Rightarrow> entry" where
  "no_files p = Absent"

text \<open>Whether an edge resolves into the node list of its graph.\<close>

definition resolves :: "flow_graph \<Rightarrow> nat option \<times> nat option \<times> rat \<Rightarrow> bool" where
  "resolves g e =
     (case e of
        (Some i, Some j, w) \<Rightarrow> i < length (labels g) \<and> j < length (labels g)
      | _ \<Rightarrow> False)"

section \<open>Example tables and states\<close>

definition no_selection :: state where
  "no_selection =
     \<lparr>selections = Map.empty, date_start = None, date_end = None,
      selected_city = None, kpi_focus = Some ''Revenue''\<rparr>"

text \<open>One row whose revenue and units before the promotion are zero; a table with the KPI
  columns and no row.\<close>

definition zero_before :: frame where
  "zero_before = \<lparr>columns = kpi_columns, rows = [[Num 0, Num 5, Num 0, Num 3]]\<rparr>"

definition no_kpi_rows :: frame where
  "no_kpi_rows = \<lparr>columns = kpi_columns, rows = []\<rparr>"


text \<open>Tables with the columns of the flow graph: no row; a promo type and a category of
  the same name; two campaigns through one promo type.\<close>

definition no_rows :: frame where
  "no_rows = \<lparr>columns = sankey_required, rows = []\<rparr>"

definition shared_label :: frame where
  "shared_label =
     \<lparr>columns = sankey_required,
      rows = [[Str ''C1'', Str ''Combo'', Str ''Combo'', Num 5, Num 1]]\<rparr>"

definition two_hops :: frame where
  "two_hops =
     \<lparr>columns = sankey_required,
      rows = [[Str ''C1'', Str ''BOGOF'', Str ''Grocery'', Num 5, Num 1],
              [Str ''C2'', Str ''BOGOF'', Str ''Home'', Num 7, Num 2]]\<rparr>"

text \<open>A table to filter, and selection states: one campaign; the same campaign in one
  city; the first again with a date range.\<close>

definition sales :: frame where
  "sales =
     \<lparr>columns = [''campaign_id'', ''city'', ''start_date'', ''end_date''],
      rows = [[Str ''C1'', Str ''Hyderabad'', Num 10, Num 20],
              [Str ''C2'', Str ''Hyderabad'', Num 30, Num 40],
              [Str ''C1'', Str ''Bengaluru'', Num 10, Num 20]]\<rparr>"

definition one_campaign :: state where
  "one_campaign = no_selection\<lparr>selections := [''campaigns'' \<mapsto> [Str ''C1'']]\<rparr>"

definition one_campaign_one_city :: state where
  "one_campaign_one_city =
     no_selection\<lparr>selections :=
       [''campaigns'' \<mapsto> [Str ''C1''], ''cities'' \<mapsto> [Str ''Hyderabad'']]\<rparr>"

definition one_campaign_dated :: state where
  "one_campaign_dated = one_campaign\<lparr>date_start := Some 100, date_end := Some 200\<rparr>"






definition repeated_city :: frame where
  "repeated_city =
     \<lparr>columns = [''campaign_id'', ''city'', ''city''],
      rows = [[Str ''C1'', Str ''Pune'', Str ''Pune''],
              [Str ''C2'', Str ''Pune'', Str ''Delhi''],
              [Str ''C3'', Str ''Delhi'', Str ''Pune'']]\<rparr>"

definition city_pune :: state where
  "city_pune = no_selection\<lparr>selections := [''cities'' \<mapsto> [Str ''Pune'']]\<rparr>"

definition units_focus :: state where
  "units_focus = no_selection\<lparr>kpi_focus := Some ''Units''\<rparr>"

text \<open>The node list of a view's result (empty when nothing was drawn).\<close>

definition node_list :: "flow_graph outcome \<Rightarrow> cell list" where
  "node_list r = (case r of Rendered g \<Rightarrow> labels g | _ \<Rightarrow> [])"



section \<open>Properties of the filter engine\<close>

lemma positions_from_absent: "c \<notin> set xs \<Longrightarrow> positions_from n xs c = []"
  by (induction xs arbitrary: n) auto

lemma positions_from_distinct:
  "distinct xs \<Longrightarrow> c \<in> set xs \<Longrightarrow> positions_from n xs c = [n + position xs c]"
  by (induction xs arbitrary: n) (auto simp: positions_from_absent)

text \<open>Under a name that heads one column, \<open>df[c]\<close> is the series.\<close>

lemma columns_named_distinct:
  "distinct (columns d) \<Longrightarrow> c \<in> set (columns d) \<Longrightarrow>
     columns_named d c = map (\<lambda>r. [cell_of d c r]) (rows d)"
  by (simp add: columns_named_def positions_from_distinct cell_of_def)

lemma logical_and_maps:
  "logical_and (map (\<lambda>r. [P r]) rs) (map (\<lambda>r. [Q r]) rs) = map (\<lambda>r. [P r \<and> Q r]) rs"
  by (induction rs) (simp_all add: logical_and_def)

lemma foldl_logical_and:
  "foldl logical_and (map (\<lambda>r. [P r]) rs) (map (\<lambda>p. map (\<lambda>r. [p r]) rs) ps)
     = map (\<lambda>r. [P r \<and> (\<forall>p \<in> set ps. p r)]) rs"
proof (induction ps arbitrary: P)
  case Nil
  then show ?case by simp
next
  case (Cons p ps)
  have "foldl logical_and (map (\<lambda>r. [P r]) rs) (map (\<lambda>p. map (\<lambda>r. [p r]) rs) (p # ps))
        = foldl logical_and (map (\<lambda>r. [P r \<and> p r]) rs) (map (\<lambda>p. map (\<lambda>r. [p r]) rs) ps)"
    by (simp add: logical_and_maps)
  also have "\<dots> = map (\<lambda>r. [(P r \<and> p r) \<and> (\<forall>q \<in> set ps. q r)]) rs"
    by (rule Cons.IH)
  finally show ?case by (simp add: conj_assoc)
qed

lemma logical_and_reduce_maps:
  "ps \<noteq> [] \<Longrightarrow>
     logical_and_reduce (map (\<lambda>p. map (\<lambda>r. [p r]) rs) ps)
       = Inr (map (\<lambda>r. [\<forall>p \<in> set ps. p r]) rs)"
  by (cases ps) (simp_all add: foldl_logical_and list_all_iff same_shape_def comp_def)

lemma replicate_by_mask:
  "concat (map (\<lambda>rb. replicate (length (filter (\<lambda>b. b) (snd rb))) (fst rb))
             (zip xs (map (\<lambda>r. [P r]) xs))) = filter P xs"
  by (induction xs) simp_all

lemma mask_index_map:
  "mask_index d (map (\<lambda>r. [P r]) (rows d)) = d\<lparr>rows := filter P (rows d)\<rparr>"
proof (cases "list_all (list_all (\<lambda>b. b)) (map (\<lambda>r. [P r]) (rows d))")
  case True
  then have "filter P (rows d) = rows d" by (simp add: list_all_iff)
  then show ?thesis using True by (simp add: mask_index_def)
next
  case False
  then show ?thesis by (simp add: mask_index_def replicate_by_mask)
qed



lemma columns_bool_index [simp]: "columns (bool_index d m) = columns d"
  by (simp add: bool_index_def)

lemma filters_as_maps:
  assumes "distinct (columns d)"
  shows "filters d s =
     map (\<lambda>p. map (\<lambda>r. [p r]) (rows d))
       (map (\<lambda>ck r. cell_of d (fst ck) r \<in> set (get_selection s (snd ck)))
          (filter (active d s) filter_map))"
proof -
  have "isin_cells (columns_named d (fst ck)) (get_selection s (snd ck))
      = map (\<lambda>r. [cell_of d (fst ck) r \<in> set (get_selection s (snd ck))]) (rows d)"
    if "active d s ck" for ck
    using that assms by (simp add: active_def columns_named_distinct isin_cells_def comp_def)
  then show ?thesis by (simp add: filters_def comp_def cong: map_cong)
qed

lemma passes_alt:
  "passes d s r \<longleftrightarrow>
     (\<forall>p \<in> set (map (\<lambda>ck r. cell_of d (fst ck) r \<in> set (get_selection s (snd ck)))
          (filter (active d s) filter_map)). p r)"
  by (auto simp: passes_def)

text \<open>What the function computes on a table with distinct column names: the rows that
  pass every active filter, in order; it does not raise.\<close>

lemma apply_global_filters_rows:
  assumes "distinct (columns d)"
  shows "apply_global_filters (Some d) s = Inr (Some (d\<lparr>rows := filter (passes d s) (rows d)\<rparr>))"
proof (cases "filter (active d s) filter_map = []")
  case True
  then have none: "\<forall>ck \<in> set filter_map. \<not> active d s ck"
    by (simp add: filter_empty_conv)
  then have "passes d s r" for r by (simp add: passes_def)
  then have "filter (passes d s) (rows d) = rows d" by simp
  moreover have "filters d s = []" using True by (simp add: filters_def)
  ultimately show ?thesis by (simp add: apply_global_filters_def)
next
  case False
  then obtain ck where "ck \<in> set filter_map" "active d s ck"
    by (auto simp: filter_empty_conv)
  then have cols: "columns d \<noteq> []" by (auto simp: active_def)
  have ne: "filters d s \<noteq> []" using False by (simp add: filters_def)
  have red: "logical_and_reduce (filters d s) = Inr (map (\<lambda>r. [passes d s r]) (rows d))"
    unfolding filters_as_maps[OF assms] using False
    by (subst logical_and_reduce_maps) (simp_all add: passes_alt[abs_def])
  show ?thesis
  proof (cases "rows d = []")
    case True
    then show ?thesis by (simp add: apply_global_filters_def df_empty_def)
  next
    case False
    then show ?thesis using cols ne red
      by (simp add: apply_global_filters_def df_empty_def andthen_def mask_index_map)
  qed
qed

lemma passes_cong: "columns d' = columns d \<Longrightarrow> passes d' s = passes d s"
  by (simp add: passes_def active_def cell_of_def fun_eq_iff)

lemma passes_mono:
  assumes "more_restrictive s2 s1" and "passes d s2 r"
  shows "passes d s1 r"
  unfolding passes_def
proof (intro ballI impI)
  fix ck assume ck: "ck \<in> set filter_map" and act: "active d s1 ck"
  from assms(1) ck have "restricts s2 s1 (snd ck)" by (simp add: more_restrictive_def)
  with act have ne: "get_selection s2 (snd ck) \<noteq> []"
    and sub: "set (get_selection s2 (snd ck)) \<subseteq> set (get_selection s1 (snd ck))"
    by (auto simp: restricts_def active_def)
  from act ne have "active d s2 ck" by (simp add: active_def)
  with assms(2) ck have "cell_of d (fst ck) r \<in> set (get_selection s2 (snd ck))"
    by (simp add: passes_def)
  with sub show "cell_of d (fst ck) r \<in> set (get_selection s1 (snd ck))" by blast
qed

lemma filter_subseq_mono: "(\<And>x. P x \<Longrightarrow> Q x) \<Longrightarrow> subseq (filter P xs) (filter Q xs)"
  by (induction xs) auto

text \<open>The masks read the state through the five selections only.\<close>

lemma filters_same:
  assumes "same_selections s1 s2"
  shows "filters d s1 = filters d s2"
proof -
  have sel: "get_selection s1 (snd ck) = get_selection s2 (snd ck)" if "ck \<in> set filter_map" for ck
    using assms that by (simp add: same_selections_def)
  then have act: "active d s1 ck = active d s2 ck" if "ck \<in> set filter_map" for ck
    using that by (simp add: active_def)
  have "filter (active d s1) filter_map = filter (active d s2) filter_map"
    using act by (auto intro: filter_cong)
  moreover have "map (\<lambda>ck. isin_cells (columns_named d (fst ck)) (get_selection s1 (snd ck)))
        (filter (active d s2) filter_map)
      = map (\<lambda>ck. isin_cells (columns_named d (fst ck)) (get_selection s2 (snd ck)))
        (filter (active d s2) filter_map)"
    using sel by (auto intro: map_cong)
  ultimately show ?thesis by (simp add: filters_def)
qed

text \<open>
  C5 as stated fails: in a table where two columns are called city, selecting one city
  keeps a row once for each of its two city cells that matches, so the first row comes
  out twice (four rows from three), and filtering the result again gives six rows.
\<close>

theorem filter_twice_counterexample:
  "rows_of (apply_global_filters (Some repeated_city) city_pune)
     = [[Str ''C1'', Str ''Pune'', Str ''Pune''],
        [Str ''C1'', Str ''Pune'', Str ''Pune''],
        [Str ''C2'', Str ''Pune'', Str ''Delhi''],
        [Str ''C3'', Str ''Delhi'', Str ''Pune'']]
   \<and> rows_of (apply_twice (Some repeated_city) city_pune)
     = [[Str ''C1'', Str ''Pune'', Str ''Pune''],
        [Str ''C1'', Str ''Pune'', Str ''Pune''],
        [Str ''C1'', Str ''Pune'', Str ''Pune''],
        [Str ''C1'', Str ''Pune'', Str ''Pune''],
        [Str ''C2'', Str ''Pune'', Str ''Delhi''],
        [Str ''C3'', Str ''Delhi'', Str ''Pune'']]
   \<and> apply_twice (Some repeated_city) city_pune
       \<noteq> apply_global_filters (Some repeated_city) city_pune"
  by code_simp

text \<open>
  C5, amended. For every table whose column names are distinct (or \<open>None\<close>) and every
  selection state, the filter returns a table, and filtering that table again with the
  same state gives the same table, row for row.
\<close>

theorem filter_idempotent:
  assumes "distinct_columns df"
  shows "returns (apply_global_filters df s)
    \<and> apply_twice df s = apply_global_filters df s"
proof (cases df)
  case None
  then show ?thesis by (simp add: apply_twice_def apply_global_filters_def andthen_def returns_def)
next
  case (Some d)
  with assms have dist: "distinct (columns d)" by (simp add: distinct_columns_def)
  let ?d' = "d\<lparr>rows := filter (passes d s) (rows d)\<rparr>"
  have first: "apply_global_filters (Some d) s = Inr (Some ?d')"
    by (rule apply_global_filters_rows[OF dist])
  have "distinct (columns ?d')" using dist by simp
  then have "apply_global_filters (Some ?d') s
      = Inr (Some (?d'\<lparr>rows := filter (passes ?d' s) (rows ?d')\<rparr>))"
    by (rule apply_global_filters_rows)
  moreover have "passes ?d' s = passes d s" by (rule passes_cong) simp
  ultimately have "apply_global_filters (Some ?d') s = Inr (Some ?d')" by simp
  then show ?thesis using Some first by (simp add: apply_twice_def andthen_def returns_def)
qed

theorem filter_idempotent_witness:
  "distinct_columns (Some sales)
   \<and> returns (apply_global_filters (Some sales) one_campaign)
   \<and> apply_twice (Some sales) one_campaign = apply_global_filters (Some sales) one_campaign
   \<and> rows_of (apply_global_filters (Some sales) one_campaign)
     = [[Str ''C1'', Str ''Hyderabad'', Num 10, Num 20],
        [Str ''C1'', Str ''Bengaluru'', Num 10, Num 20]]"
proof -
  have h: "distinct_columns (Some sales)" by code_simp
  have "rows_of (apply_global_filters (Some sales) one_campaign)
     = [[Str ''C1'', Str ''Hyderabad'', Num 10, Num 20],
        [Str ''C1'', Str ''Bengaluru'', Num 10, Num 20]]"
    by code_simp
  with filter_idempotent [OF h, of one_campaign] h show ?thesis by blast
qed

text \<open>
  C6 as stated fails: in the table with two columns called city, the selection of one
  city is more restrictive than no selection, yet it returns four rows, the first row
  twice, where no selection returns the three rows of the table: more rows than the
  result they should be a subset of.
\<close>

theorem filter_subset_counterexample:
  "more_restrictive city_pune no_selection
   \<and> rows_of (apply_global_filters (Some repeated_city) city_pune)
     = [[Str ''C1'', Str ''Pune'', Str ''Pune''],
        [Str ''C1'', Str ''Pune'', Str ''Pune''],
        [Str ''C2'', Str ''Pune'', Str ''Delhi''],
        [Str ''C3'', Str ''Delhi'', Str ''Pune'']]
   \<and> rows_of (apply_global_filters (Some repeated_city) no_selection)
     = [[Str ''C1'', Str ''Pune'', Str ''Pune''],
        [Str ''C2'', Str ''Pune'', Str ''Delhi''],
        [Str ''C3'', Str ''Delhi'', Str ''Pune'']]
   \<and> length (rows_of (apply_global_filters (Some repeated_city) no_selection))
       < length (rows_of (apply_global_filters (Some repeated_city) city_pune))"
  by code_simp

text \<open>
  C6, amended. For every table whose column names are distinct (or \<open>None\<close>): when
  selection state \<open>s2\<close> is at least as restrictive as \<open>s1\<close> on every dimension, the
  filter returns a table under both, and the rows kept under \<open>s2\<close> are among the rows
  kept under \<open>s1\<close> (as a subsequence, hence as a subset).
\<close>

theorem filter_monotone:
  assumes "distinct_columns df" and "more_restrictive s2 s1"
  shows "returns (apply_global_filters df s2) \<and> returns (apply_global_filters df s1)
    \<and> subseq (rows_of (apply_global_filters df s2)) (rows_of (apply_global_filters df s1))
    \<and> set (rows_of (apply_global_filters df s2)) \<subseteq> set (rows_of (apply_global_filters df s1))"
proof (cases df)
  case None
  then show ?thesis by (simp add: apply_global_filters_def rows_of_def returns_def)
next
  case (Some d)
  with assms(1) have dist: "distinct (columns d)" by (simp add: distinct_columns_def)
  have sub: "subseq (filter (passes d s2) (rows d)) (filter (passes d s1) (rows d))"
    using passes_mono[OF assms(2)] by (rule filter_subseq_mono)
  then have "set (filter (passes d s2) (rows d)) \<subseteq> set (filter (passes d s1) (rows d))"
    by (auto elim: list_emb_set)
  with sub show ?thesis using Some
    by (simp add: apply_global_filters_rows[OF dist] rows_of_def returns_def)
qed

theorem filter_monotone_witness:
  "distinct_columns (Some sales)
   \<and> more_restrictive one_campaign_one_city one_campaign
   \<and> returns (apply_global_filters (Some sales) one_campaign_one_city)
   \<and> returns (apply_global_filters (Some sales) one_campaign)
   \<and> subseq (rows_of (apply_global_filters (Some sales) one_campaign_one_city))
       (rows_of (apply_global_filters (Some sales) one_campaign))
   \<and> rows_of (apply_global_filters (Some sales) one_campaign_one_city)
       = [[Str ''C1'', Str ''Hyderabad'', Num 10, Num 20]]
   \<and> rows_of (apply_global_filters (Some sales) one_campaign)
       = [[Str ''C1'', Str ''Hyderabad'', Num 10, Num 20],
          [Str ''C1'', Str ''Bengaluru'', Num 10, Num 20]]"
proof -
  have d: "distinct_columns (Some sales)" by code_simp
  have h: "more_restrictive one_campaign_one_city one_campaign" by code_simp
  have a: "rows_of (apply_global_filters (Some sales) one_campaign_one_city)
       = [[Str ''C1'', Str ''Hyderabad'', Num 10, Num 20]]"
    by code_simp
  have b: "rows_of (apply_global_filters (Some sales) one_campaign)
       = [[Str ''C1'', Str ''Hyderabad'', Num 10, Num 20],
          [Str ''C1'', Str ''Bengaluru'', Num 10, Num 20]]"
    by code_simp
  from filter_monotone [OF d h] d h a b show ?thesis by blast
qed

text \<open>
  C10. The date range has no effect: two selection states with the same campaign,
  category, product, promo-type and city selections give the same filtered table,
  whatever their \<open>date_start\<close> and \<open>date_end\<close> (and whatever else they hold).
\<close>

theorem dates_ignored:
  assumes "same_selections s1 s2"
  shows "apply_global_filters df s1 = apply_global_filters df s2"
proof (cases df)
  case None
  then show ?thesis by (simp add: apply_global_filters_def)
next
  case (Some d)
  then show ?thesis using filters_same[OF assms, of d] by (simp add: apply_global_filters_def)
qed

theorem dates_ignored_witness:
  "same_selections one_campaign one_campaign_dated
   \<and> date_start one_campaign = None \<and> date_start one_campaign_dated = Some 100
   \<and> date_end one_campaign = None \<and> date_end one_campaign_dated = Some 200
   \<and> apply_global_filters (Some sales) one_campaign
       = apply_global_filters (Some sales) one_campaign_dated"
proof -
  have h: "same_selections one_campaign one_campaign_dated" by code_simp
  have d: "date_start one_campaign = None \<and> date_start one_campaign_dated = Some 100
     \<and> date_end one_campaign = None \<and> date_end one_campaign_dated = Some 200"
    by (simp add: one_campaign_dated_def one_campaign_def no_selection_def)
  from dates_ignored [OF h, of "Some sales"] h d show ?thesis by blast
qed

section \<open>Properties of the KPI summary\<close>

lemma kpi_of_cases:
  "kpi_of f d b a =
     (if b \<notin> set (columns d) then Inl (KeyError b)
      else if a \<notin> set (columns d) then Inl (KeyError a)
      else Inr \<lparr>before_value = series_sum (series d b), after_value = series_sum (series d a),
                incremental_percent = f (sum_cell (series d b)) (sum_cell (series d a))\<rparr>)"
  by (simp add: kpi_of_def getitem_def andthen_def)

lemma columns_focus_city_filter [simp]: "columns (focus_city_filter d s) = columns d"
  by (simp add: focus_city_filter_def split: option.splits)






text \<open>The percentage on the metric cards is the guarded one: 0 for a zero denominator,
  the relative change in percent otherwise.\<close>

lemma guarded_percent_value:
  "guarded_percent b a =
     (if val b = 0 then Finite 0 else Finite (val (np_subtract a b) / val b * 100))"
  by (simp add: guarded_percent_def np_divide_def np_times_def)

lemma kpi_cards_guarded:
  assumes "kpi_cards d focus = Inr (Some p)"
  shows "before_value p = 0 \<longrightarrow> incremental_percent p = Finite 0"
    and "incremental_percent p \<notin> {PosInf, NegInf, NotANumber}"
  using assms
  by (auto simp: kpi_cards_def kpi_of_cases andthen_def guarded_percent_value series_sum_def
      split: if_splits)

text \<open>The percentage computed again below the cards, which the KPI chart plots, is never
  finite for a zero denominator.\<close>

lemma unguarded_percent_zero:
  "val b = 0 \<Longrightarrow> unguarded_percent b a \<in> {PosInf, NegInf, NotANumber}"
  by (simp add: unguarded_percent_def np_divide_def np_times_def)

lemma kpi_chart_zero_denominator:
  assumes "dashboard_kpi df s = Inr v" and "before_value (chart v) = 0"
  shows "incremental_percent (chart v) \<in> {PosInf, NegInf, NotANumber}"
proof -
  from assms(1) obtain sc c p where
    p: "kpi_recomputed sc = Inr p" and v: "v = \<lparr>cards = c, chart = kpi_chart (get_kpi_focus s) p\<rparr>"
    by (auto simp: dashboard_kpi_def split: sum.splits)
  from p obtain rev units where ru: "p = (rev, units)"
    and rev: "kpi_of unguarded_percent sc ''revenue_before_promo'' ''revenue_after_promo'' = Inr rev"
    and units: "kpi_of unguarded_percent sc ''quantity_sold (before_promo)''
                  ''quantity_sold (after_promo)'' = Inr units"
    by (auto simp: kpi_recomputed_def andthen_def split: sum.splits)
  have zero: "before_value q = 0 \<Longrightarrow> incremental_percent q \<in> {PosInf, NegInf, NotANumber}"
    if "kpi_of unguarded_percent sc b a = Inr q" for q b a
  proof -
    assume z: "before_value q = 0"
    from that have q: "before_value q = val (sum_cell (series sc b))"
      "incremental_percent q = unguarded_percent (sum_cell (series sc b)) (sum_cell (series sc a))"
      by (auto simp: kpi_of_cases series_sum_def split: if_splits)
    from z q(1) have "val (sum_cell (series sc b)) = 0" by simp
    then show ?thesis unfolding q(2) by (rule unguarded_percent_zero)
  qed
  show ?thesis
  proof (cases "get_kpi_focus s = ''Revenue''")
    case True
    then have "chart v = rev" by (simp add: v ru kpi_chart_def)
    then show ?thesis using zero[OF rev] assms(2) by simp
  next
    case False
    then have "chart v = units" by (simp add: v ru kpi_chart_def)
    then show ?thesis using zero[OF units] assms(2) by simp
  qed
qed

text \<open>
  C1. The claim: the KPI computation returns 0 as the incremental percentage whenever the
  before value is zero, never NaN or an infinity. The metric cards do; the values computed
  again below them, which the KPI chart plots, do not. For one row with revenue 0 before
  and 5 after (units 0 and 3), the card shows 0 and the chart value is plus infinity, for
  the revenue focus and for the units focus; for a table with no row it is NaN.
\<close>

theorem kpi_zero_denominator_unguarded:
  "dashboard_kpi zero_before no_selection =
     Inr \<lparr>cards = Some \<lparr>before_value = 0, after_value = 5, incremental_percent = Finite 0\<rparr>,
          chart = \<lparr>before_value = 0, after_value = 5, incremental_percent = PosInf\<rparr>\<rparr>
   \<and> dashboard_kpi zero_before units_focus =
     Inr \<lparr>cards = Some \<lparr>before_value = 0, after_value = 3, incremental_percent = Finite 0\<rparr>,
          chart = \<lparr>before_value = 0, after_value = 3, incremental_percent = PosInf\<rparr>\<rparr>
   \<and> dashboard_kpi no_kpi_rows no_selection =
     Inr \<lparr>cards = Some \<lparr>before_value = 0, after_value = 0, incremental_percent = Finite 0\<rparr>,
          chart = \<lparr>before_value = 0, after_value = 0, incremental_percent = NotANumber\<rparr>\<rparr>"
  by code_simp

section \<open>Missing columns\<close>




section \<open>Properties of the loader\<close>

text \<open>
  C9 as stated fails: an alias outside the registry raises a KeyError, not a
  ConfigurationError.
\<close>

theorem unknown_alias_counterexample:
  "load_csv ''data'' no_files id ''sales'' = Inl (KeyError ''Unknown dataset alias: sales'')
   \<and> \<not> raises_ConfigurationError (load_csv ''data'' no_files id ''sales'')"
  by code_simp

text \<open>
  C9, amended. For every alias that is not in the registry the loader raises
  \<open>KeyError\<close> with the message "Unknown dataset alias: " followed by the alias,
  whatever the data directory and the files; it returns no table and raises nothing
  else.
\<close>

theorem unknown_alias_raises_KeyError:
  assumes "alias \<notin> set (map fst CSV_ALIASES)"
  shows "load_csv data_dir fs to_datetime alias
           = Inl (KeyError (''Unknown dataset alias: '' @ alias))"
proof -
  from assms have "map_of CSV_ALIASES alias = None"
    by (simp add: map_of_eq_None_iff)
  then show ?thesis by (simp add: load_csv_def)
qed

theorem unknown_alias_raises_KeyError_witness:
  "''orders'' \<notin> set (map fst CSV_ALIASES)
   \<and> load_csv ''data'' no_files id ''orders''
       = Inl (KeyError (''Unknown dataset alias: '' @ ''orders''))"
proof -
  have h: "''orders'' \<notin> set (map fst CSV_ALIASES)" by code_simp
  from unknown_alias_raises_KeyError [OF h, of "''data''" no_files id] h
  show ?thesis by blast
qed

section \<open>Properties of the flow graph\<close>

lemma label_fold_notin:
  "l \<notin> set ls \<Longrightarrow> fold (\<lambda>il m. m(snd il \<mapsto> fst il)) (enumerate n ls) m0 l = m0 l"
  by (induction ls arbitrary: n m0) auto

lemma label_fold_in:
  "l \<in> set ls \<Longrightarrow>
     \<exists>i. fold (\<lambda>il m. m(snd il \<mapsto> fst il)) (enumerate n ls) m0 l = Some i
          \<and> n \<le> i \<and> i < n + length ls \<and> ls ! (i - n) = l"
proof (induction ls arbitrary: n m0)
  case Nil
  then show ?case by simp
next
  case (Cons x xs)
  define f :: "nat \<times> 'a \<Rightarrow> ('a \<rightharpoonup> nat) \<Rightarrow> ('a \<rightharpoonup> nat)"
    where "f = (\<lambda>il m. m(snd il \<mapsto> fst il))"
  have step: "fold f (enumerate n (x # xs)) m0 = fold f (enumerate (Suc n) xs) (m0(x \<mapsto> n))"
    by (simp add: f_def)
  have "\<exists>i. fold f (enumerate n (x # xs)) m0 l = Some i
          \<and> n \<le> i \<and> i < n + length (x # xs) \<and> (x # xs) ! (i - n) = l"
  proof (cases "l \<in> set xs")
    case True
    from Cons.IH[OF True, of "Suc n" "m0(x \<mapsto> n)"] obtain i where
      i: "fold f (enumerate (Suc n) xs) (m0(x \<mapsto> n)) l = Some i"
         "Suc n \<le> i" "i < Suc n + length xs" "xs ! (i - Suc n) = l"
      unfolding f_def by blast
    from i(2) obtain j where j: "i - n = Suc j" "i - Suc n = j"
      by (metis Suc_diff_le diff_Suc_Suc)
    then have "(x # xs) ! (i - n) = l" using i(4) by simp
    moreover have "n \<le> i" "i < n + length (x # xs)" using i(2,3) by simp_all
    ultimately show ?thesis using i(1) step by metis
  next
    case False
    with Cons.prems have lx: "l = x" by simp
    have "fold f (enumerate (Suc n) xs) (m0(x \<mapsto> n)) l = (m0(x \<mapsto> n)) l"
      unfolding f_def using False by (rule label_fold_notin)
    then have "fold f (enumerate n (x # xs)) m0 l = Some n" using step lx by simp
    moreover have "(x # xs) ! (n - n) = l" using lx by simp
    ultimately show ?thesis by (intro exI[of _ n]) simp
  qed
  then show ?case unfolding f_def .
qed

text \<open>Every label of the node list has an index, and the node at that index is the
  label.\<close>

lemma label_indices_in:
  "l \<in> set ls \<Longrightarrow> \<exists>i. label_indices ls l = Some i \<and> i < length ls \<and> ls ! i = l"
  using label_fold_in[of l ls 0 Map.empty] by (auto simp: label_indices_def)

lemma set_unique [simp]: "set (unique s) = set s"
  by (simp add: unique_def)

lemma distinct_unique [simp]: "distinct (unique s)"
  by (simp add: unique_def)

lemma remdups_append_disjoint:
  "set xs \<inter> set ys = {} \<Longrightarrow> remdups (xs @ ys) = remdups xs @ remdups ys"
  by (induction xs) auto

lemma unique_append_disjoint:
  "set a \<inter> set b = {} \<Longrightarrow> unique (a @ b) = unique a @ unique b"
proof -
  assume "set a \<inter> set b = {}"
  then have "set (rev b) \<inter> set (rev a) = {}" by auto
  then have "remdups (rev b @ rev a) = remdups (rev b) @ remdups (rev a)"
    by (rule remdups_append_disjoint)
  then show ?thesis by (simp add: unique_def)
qed

lemma set_group_keys: "set (group_keys d cols) = group_key d cols ` set (grouped_rows d cols)"
  by (simp add: group_keys_def)


lemma group_key_cell:
  "k \<in> set (group_keys d cols) \<Longrightarrow> i < length cols \<Longrightarrow>
     cell_at k i \<in> set (series d (cols ! i))"
  by (auto simp: set_group_keys group_key_def grouped_rows_def cell_at_def series_def)

lemma link_cell:
  "kv \<in> set (groupby_sum d cols v) \<Longrightarrow> i < length cols \<Longrightarrow>
     cell_at (fst kv) i \<in> set (series d (cols ! i))"
  by (auto simp: groupby_sum_def intro: group_key_cell)

lemma sankey_labels_set:
  "set (sankey_labels d) =
     set (series d ''campaign_id'') \<union> set (series d ''promo_type'') \<union> set (series d ''category'')"
  by (auto simp: sankey_labels_def)

lemma sankey_graph_edges:
  assumes "e \<in> set (edges (sankey_graph d v))"
  shows "resolves (sankey_graph d v) e"
proof -
  let ?ix = "label_indices (sankey_labels d)"
  let ?l1 = "groupby_sum d [''campaign_id'', ''promo_type''] v"
  let ?l2 = "groupby_sum d [''promo_type'', ''category''] v"
  have ed: "edges (sankey_graph d v) =
      map (\<lambda>kv. (?ix (cell_at (fst kv) 0), ?ix (cell_at (fst kv) 1), snd kv)) (?l1 @ ?l2)"
    by (simp add: edges_def sankey_graph_def Let_def zip_map_map zip_same_conv_map
        flip: map_append)
  from assms obtain kv where kv: "kv \<in> set ?l1 \<or> kv \<in> set ?l2"
    and e: "e = (?ix (cell_at (fst kv) 0), ?ix (cell_at (fst kv) 1), snd kv)"
    unfolding ed by auto
  from kv have "cell_at (fst kv) 0 \<in> set (sankey_labels d)
      \<and> cell_at (fst kv) 1 \<in> set (sankey_labels d)"
    using link_cell[of kv d "[''campaign_id'', ''promo_type'']" v 0]
      link_cell[of kv d "[''campaign_id'', ''promo_type'']" v 1]
      link_cell[of kv d "[''promo_type'', ''category'']" v 0]
      link_cell[of kv d "[''promo_type'', ''category'']" v 1]
    by (auto simp: sankey_labels_set)
  then obtain i j where "?ix (cell_at (fst kv) 0) = Some i" "i < length (sankey_labels d)"
      "?ix (cell_at (fst kv) 1) = Some j" "j < length (sankey_labels d)"
    using label_indices_in by meson
  then show ?thesis using e by (simp add: resolves_def sankey_graph_def Let_def)
qed

lemma ordered_union_disjoint:
  assumes "set (series d ''campaign_id'') \<inter> set (series d ''promo_type'') = {}"
    and "set (series d ''campaign_id'') \<inter> set (series d ''category'') = {}"
    and "set (series d ''promo_type'') \<inter> set (series d ''category'') = {}"
  shows "sankey_labels d = ordered_union d"
proof -
  have "set (series d ''campaign_id'') \<inter> set (series d ''promo_type'' @ series d ''category'') = {}"
    using assms by auto
  then show ?thesis using assms(3)
    by (simp add: sankey_labels_def ordered_union_def unique_append_disjoint)
qed

text \<open>A table that has the required columns and no row makes the view raise, whatever
  the metric and the threshold.\<close>

lemma sankey_no_rows_raises:
  assumes "set sankey_required \<subseteq> set (columns df)" and "rows df = []"
  shows "sankey df metric min_value = Raised (ValueError ''cannot convert float NaN to integer'')"
  using assms by (simp add: sankey_def series_def series_max_def finite_values_def)

text \<open>
  C3. The claim: a scoped table with the required columns and no row gives an empty flow
  graph and no error. The view computes the upper bound of its threshold slider as the
  integer of the column maximum first, which is NaN for an empty column, and raises
  ValueError, for either metric.
\<close>

theorem sankey_empty_table_raises:
  "sankey no_rows ''Revenue'' 0 = Raised (ValueError ''cannot convert float NaN to integer'')
   \<and> sankey no_rows ''Units'' 0 = Raised (ValueError ''cannot convert float NaN to integer'')"
  by code_simp

text \<open>
  C4 as stated fails: with a promo type and a category both called Combo, the node list
  holds Combo twice (positions 1 and 2), while the ordered union holds it once.
\<close>

theorem node_list_counterexample:
  "node_list (sankey shared_label ''Revenue'' 0) = [Str ''C1'', Str ''Combo'', Str ''Combo'']
   \<and> ordered_union (sankey_scope shared_label ''revenue_after_promo'' 0)
       = [Str ''C1'', Str ''Combo'']
   \<and> node_list (sankey shared_label ''Revenue'' 0)
       \<noteq> ordered_union (sankey_scope shared_label ''revenue_after_promo'' 0)
   \<and> \<not> distinct (node_list (sankey shared_label ''Revenue'' 0))"
  by code_simp

text \<open>
  C4, amended. In every flow graph drawn, the node list is the distinct values of level 1,
  followed by those of level 2, followed by those of level 3, of the rows above the
  threshold (a value is listed once for each level it appears in); when no value appears
  in two levels this is the ordered union. Every edge's source and target index resolves
  to an entry of the node list.
\<close>

theorem node_list_and_edges:
  assumes "sankey df metric min_value = Rendered g"
  shows "labels g =
           unique (series (sankey_scope df (sankey_value_col metric) min_value) ''campaign_id'')
           @ unique (series (sankey_scope df (sankey_value_col metric) min_value) ''promo_type'')
           @ unique (series (sankey_scope df (sankey_value_col metric) min_value) ''category'')
    \<and> (set (series (sankey_scope df (sankey_value_col metric) min_value) ''campaign_id'')
          \<inter> set (series (sankey_scope df (sankey_value_col metric) min_value) ''promo_type'') = {}
        \<and> set (series (sankey_scope df (sankey_value_col metric) min_value) ''campaign_id'')
          \<inter> set (series (sankey_scope df (sankey_value_col metric) min_value) ''category'') = {}
        \<and> set (series (sankey_scope df (sankey_value_col metric) min_value) ''promo_type'')
          \<inter> set (series (sankey_scope df (sankey_value_col metric) min_value) ''category'') = {}
        \<longrightarrow> labels g = ordered_union (sankey_scope df (sankey_value_col metric) min_value))
    \<and> (\<forall>e \<in> set (edges g). resolves g e)"
proof -
  let ?sc = "sankey_scope df (sankey_value_col metric) min_value"
  from assms have g: "g = sankey_graph ?sc (sankey_value_col metric)"
    by (simp add: sankey_def split: if_splits cell.splits)
  then have l: "labels g = sankey_labels ?sc"
    by (simp add: sankey_graph_def Let_def)
  have 1: "labels g = unique (series ?sc ''campaign_id'') @ unique (series ?sc ''promo_type'')
      @ unique (series ?sc ''category'')"
    by (simp add: l sankey_labels_def)
  have 2: "\<forall>e \<in> set (edges g). resolves g e"
    unfolding g by (blast intro: sankey_graph_edges)
  from 1 2 l ordered_union_disjoint[of ?sc] show ?thesis by simp
qed

theorem node_list_and_edges_witness:
  "sankey two_hops ''Revenue'' 0 = Rendered
     \<lparr>labels = [Str ''C1'', Str ''C2'', Str ''BOGOF'', Str ''Grocery'', Str ''Home''],
      sources = [Some 0, Some 1, Some 2, Some 2],
      targets = [Some 2, Some 2, Some 3, Some 4],
      link_values = [5, 7, 5, 7]\<rparr>
   \<and> [Str ''C1'', Str ''C2'', Str ''BOGOF'', Str ''Grocery'', Str ''Home'']
       = ordered_union (sankey_scope two_hops (sankey_value_col ''Revenue'') 0)
   \<and> list_all
       (resolves \<lparr>labels = [Str ''C1'', Str ''C2'', Str ''BOGOF'', Str ''Grocery'', Str ''Home''],
          sources = [Some 0, Some 1, Some 2, Some 2],
          targets = [Some 2, Some 2, Some 3, Some 4],
          link_values = [5, 7, 5, 7]\<rparr>)
       [(Some 0, Some 2, 5), (Some 1, Some 2, 7), (Some 2, Some 3, 5), (Some 2, Some 4, 7)]"
proof -
  let ?g = "\<lparr>labels = [Str ''C1'', Str ''C2'', Str ''BOGOF'', Str ''Grocery'', Str ''Home''],
      sources = [Some 0, Some 1, Some 2, Some 2],
      targets = [Some 2, Some 2, Some 3, Some 4],
      link_values = [5, 7, 5, 7]\<rparr>"
  have h: "sankey two_hops ''Revenue'' 0 = Rendered ?g" by code_simp
  have d: "set (series (sankey_scope two_hops (sankey_value_col ''Revenue'') 0) ''campaign_id'')
          \<inter> set (series (sankey_scope two_hops (sankey_value_col ''Revenue'') 0) ''promo_type'') = {}
        \<and> set (series (sankey_scope two_hops (sankey_value_col ''Revenue'') 0) ''campaign_id'')
          \<inter> set (series (sankey_scope two_hops (sankey_value_col ''Revenue'') 0) ''category'') = {}
        \<and> set (series (sankey_scope two_hops (sankey_value_col ''Revenue'') 0) ''promo_type'')
          \<inter> set (series (sankey_scope two_hops (sankey_value_col ''Revenue'') 0) ''category'') = {}"
    by code_simp
  have e: "edges ?g = [(Some 0, Some 2, 5), (Some 1, Some 2, 7), (Some 2, Some 3, 5), (Some 2, Some 4, 7)]"
    by (simp add: edges_def)
  from node_list_and_edges [OF h] d
  have "labels ?g = ordered_union (sankey_scope two_hops (sankey_value_col ''Revenue'') 0)"
    and "\<forall>x \<in> set (edges ?g). resolves ?g x"
    by blast+
  then show ?thesis using h unfolding e by (simp add: list_all_iff)
qed

section \<open>Properties of the rollup\<close>

























text \<open>The mean of a column without missing values is the sum over the count.\<close>

lemma series_mean_all_present:
  "series_mean (map Num qs) = (if qs = [] then NaN else Num (sum_list qs / of_nat (length qs)))"
proof -
  have "finite_values (map Num qs) = qs"
    by (induction qs) (simp_all add: finite_values_def)
  then show ?thesis by (simp add: series_mean_def)
qed













end
